theory Spec2Isabelle
  imports Main "HOL-Library.Sublist"
begin

text \<open>
  A shallow embedding of \<^verbatim>\<open>ReportesTurnoopenpyxl.py\<close>: \<open>process_file\<close> extracts one table
  from the sheets of a workbook, \<open>process_year_folder\<close> merges the tables of the
  workbooks of a folder and writes them. Exceptions are values, the log is returned
  with the result, and the file system and openpyxl are an environment passed in.
\<close>

section \<open>Python values\<close>

text \<open>
  A Python \<^verbatim>\<open>str\<close> is a sequence of Unicode code points, so it is modelled as a list
  of natural numbers. \<open>py\<close> turns an ASCII literal of the source into such a list.
\<close>

type_synonym pystr = "nat list"

definition py :: "string \<Rightarrow> pystr" where
  "py s = map of_char s"

text \<open>
  \<^verbatim>\<open>str.strip()\<close> without argument removes leading and trailing white space, which
  for \<^verbatim>\<open>str\<close> means the code points that CPython classifies as Unicode white space.
\<close>

definition isspace :: "nat \<Rightarrow> bool" where
  "isspace c = (c \<in> set [9, 10, 11, 12, 13, 28, 29, 30, 31, 32, 133, 160, 5760,
                          8232, 8233, 8239, 8287, 12288] \<or> (8192 \<le> c \<and> c \<le> 8202))"

definition str_strip :: "pystr \<Rightarrow> pystr" where
  "str_strip s = rev (dropWhile isspace (rev (dropWhile isspace s)))"

text \<open>
  The value of a worksheet cell as openpyxl delivers it with \<^verbatim>\<open>data_only=True\<close>:
  \<^verbatim>\<open>None\<close> for an empty cell, a \<^verbatim>\<open>str\<close>, or a value of another Python type
  (number, boolean, datetime, time, timedelta). All the program does with a value that
  is not a string is to call \<^verbatim>\<open>str()\<close> on it or to use it as a column label, so such
  a value is represented by its type and the text that \<^verbatim>\<open>str()\<close> gives for it.
\<close>

datatype kind = KNumber | KBool | KDatetime | KTime | KTimedelta

datatype cell = PyNone | PyStr pystr | PyVal kind pystr

text \<open>Line 54: \<^verbatim>\<open>str(cell) if cell is not None else ''\<close>.\<close>

fun str_or_empty :: "cell \<Rightarrow> pystr" where
  "str_or_empty PyNone = []"
| "str_or_empty (PyStr s) = s"
| "str_or_empty (PyVal k s) = s"

section \<open>Exceptions and the log\<close>

text \<open>
  \<open>EnvError\<close> is any \<^verbatim>\<open>Exception\<close> raised by openpyxl or the operating system (with
  its message); the other three are the exceptions that the pandas operations of the
  program can raise.
\<close>

datatype exn = EnvError pystr | ValueError | AttributeError | InvalidIndexError

datatype level = INFO | WARNING | ERROR

text \<open>One constructor for each format string passed to \<^verbatim>\<open>logging\<close>, with its arguments.\<close>

datatype msg =
    Processing_file pystr
  | Skipping_sheet pystr
  | Processing_sheet pystr
  | Less_than_5_rows pystr pystr
  | No_valid_rows pystr pystr
  | Error_filtering exn
  | Columns_in_sheet pystr "cell list"
  | No_valid_data pystr
  | Error_processing_file pystr exn
  | Processing_file_of nat nat pystr
  | No_valid_data_folder pystr
  | Final_merged_columns "cell list"
  | Saved_merged_data pystr

type_synonym log = "(level \<times> msg) list"

section \<open>The pandas operations used by the program\<close>

text \<open>
  A cell of a DataFrame built by the program is a string or the missing value that
  pandas fills in (\<open>NaN\<close>). A DataFrame is its list of column labels (any cell value can
  be a label, and labels may repeat) and its rows; the row index is never used.
\<close>

datatype dcell = S pystr | NaN

record dataframe =
  columns :: "cell list"
  rows :: "dcell list list"

definition well_shaped :: "dataframe \<Rightarrow> bool" where
  "well_shaped df = (\<forall>r \<in> set (rows df). length r = length (columns df))"

text \<open>
  \<^verbatim>\<open>pd.DataFrame(rows, columns=headers)\<close> on a list of lists: the data is as wide as its
  longest row, shorter rows are padded with missing values, and a number of labels
  different from that width is a \<^verbatim>\<open>ValueError\<close>.
\<close>

definition DataFrame :: "pystr list list \<Rightarrow> cell list \<Rightarrow> exn + dataframe" where
  "DataFrame rs headers =
     (let w = fold max (map length rs) 0 in
      if rs \<noteq> [] \<and> length headers \<noteq> w then Inl ValueError
      else Inr \<lparr>columns = headers,
                rows = map (\<lambda>r. map S r @ replicate (length headers - length r) NaN) rs\<rparr>)"

text \<open>
  The \<^verbatim>\<open>.str\<close> accessor of an Index checks the inferred type of the labels, missing
  labels left aside: it is refused with an \<^verbatim>\<open>AttributeError\<close> when there are labels,
  none of them is a string, and all of them are of one type (integer, floating,
  boolean, datetime, ...); it is accepted when the labels are empty, all strings, or mixed.
\<close>

fun kind_of :: "cell \<Rightarrow> kind option" where
  "kind_of (PyVal k s) = Some k"
| "kind_of c = None"

definition str_accessor_ok :: "cell list \<Rightarrow> bool" where
  "str_accessor_ok labels =
     (let vals = filter (\<lambda>c. c \<noteq> PyNone) labels in
      vals = [] \<or> (\<exists>c \<in> set vals. kind_of c \<noteq> kind_of (hd vals)) \<or> kind_of (hd vals) = None)"

text \<open>
  \<^verbatim>\<open>Index.str.contains('^Unnamed')\<close> searches the regular expression in each label
  that is a string, which succeeds exactly when the label starts with \<^verbatim>\<open>Unnamed\<close>.
  For a number or a date, which stands in an Index of Python objects, the result is the
  missing value (\<open>None\<close> here). What it is for a missing label depends on the pandas
  that is installed, and the program pins none, so it is the argument \<open>na\<close>.
\<close>

fun str_contains_Unnamed :: "bool option \<Rightarrow> cell \<Rightarrow> bool option" where
  "str_contains_Unnamed na (PyStr s) = Some (prefix (py ''Unnamed'') s)"
| "str_contains_Unnamed na PyNone = na"
| "str_contains_Unnamed na (PyVal k s) = None"

text \<open>
  The two behaviours known for a missing label, as functions of the labels of the
  Index. Before pandas 3.0 the result is the missing value. From pandas 3.0 on, labels
  that are texts and missing values (with a text among them) make an Index of type
  \<^verbatim>\<open>str\<close>, whose predicates give \<^verbatim>\<open>False\<close> for a missing label; other labels make an
  Index of Python objects as before.
\<close>

definition before_pandas_3 :: "cell list \<Rightarrow> bool option" where
  "before_pandas_3 labels = None"

fun is_text :: "cell \<Rightarrow> bool" where
  "is_text (PyStr s) = True"
| "is_text c = False"

definition from_pandas_3 :: "cell list \<Rightarrow> bool option" where
  "from_pandas_3 labels =
     (if list_ex is_text labels \<and> list_all (\<lambda>c. c = PyNone \<or> is_text c) labels
      then Some False else None)"

text \<open>\<^verbatim>\<open>df.loc[:, mask]\<close> with a boolean mask keeps the columns at the positions marked true.\<close>

definition select :: "bool list \<Rightarrow> 'a list \<Rightarrow> 'a list" where
  "select keep xs = map fst (filter snd (zip xs keep))"

definition loc_columns :: "dataframe \<Rightarrow> bool list \<Rightarrow> dataframe" where
  "loc_columns df keep =
     \<lparr>columns = select keep (columns df), rows = map (select keep) (rows df)\<rparr>"

text \<open>
  \<^verbatim>\<open>Index.str.strip()\<close> strips each label that is a string; a label that is not a
  string becomes the missing value, a floating-point \<^verbatim>\<open>nan\<close>.
\<close>

fun strip_label :: "cell \<Rightarrow> cell" where
  "strip_label (PyStr s) = PyStr (str_strip s)"
| "strip_label c = PyVal KNumber (py ''nan'')"

text \<open>
  \<^verbatim>\<open>df[key] = value\<close> with a scalar: when the label exists, every column bearing it is
  overwritten in place; otherwise a new column is added at the end.
\<close>

definition setitem :: "dataframe \<Rightarrow> cell \<Rightarrow> pystr \<Rightarrow> dataframe" where
  "setitem df key v =
     (if key \<in> set (columns df)
      then df\<lparr>rows := map (\<lambda>r. map (\<lambda>(c, x). if c = key then S v else x) (zip (columns df) r))
                          (rows df)\<rparr>
      else \<lparr>columns = columns df @ [key], rows = map (\<lambda>r. r @ [S v]) (rows df)\<rparr>)"

text \<open>
  \<^verbatim>\<open>pd.concat(frames, ignore_index=True)\<close>: an empty list is a \<^verbatim>\<open>ValueError\<close>. When all
  frames have the same labels, the rows are stacked under them. Otherwise the labels of
  the result are the distinct labels in the order of their first appearance, every frame
  is reindexed to them (missing cells are \<open>NaN\<close>), and reindexing a frame with a
  repeated label is an \<^verbatim>\<open>InvalidIndexError\<close>.
\<close>

fun first_seen :: "'a list \<Rightarrow> 'a list \<Rightarrow> 'a list" where
  "first_seen acc [] = acc"
| "first_seen acc (x # xs) = first_seen (if x \<in> set acc then acc else acc @ [x]) xs"

definition reindex :: "cell list \<Rightarrow> dataframe \<Rightarrow> dcell list list" where
  "reindex labels df =
     map (\<lambda>r. map (\<lambda>c. case map_of (zip (columns df) r) c of Some x \<Rightarrow> x | None \<Rightarrow> NaN) labels)
         (rows df)"

definition pd_concat :: "dataframe list \<Rightarrow> exn + dataframe" where
  "pd_concat frames =
     (case frames of
        [] \<Rightarrow> Inl ValueError
      | f # fs \<Rightarrow>
          if \<forall>g \<in> set fs. columns g = columns f
          then Inr \<lparr>columns = columns f, rows = List.concat (map rows frames)\<rparr>
          else if \<exists>g \<in> set frames. \<not> distinct (columns g) then Inl InvalidIndexError
          else let labels = first_seen [] (List.concat (map columns frames))
               in Inr \<lparr>columns = labels, rows = List.concat (map (reindex labels) frames)\<rparr>)"

section \<open>Workbooks and the environment\<close>

text \<open>
  A worksheet as openpyxl presents it: \<^verbatim>\<open>sheet_state\<close> (openpyxl knows \<^verbatim>\<open>'visible'\<close>,
  \<^verbatim>\<open>'hidden'\<close> and \<^verbatim>\<open>'veryHidden'\<close>) and the rows that \<^verbatim>\<open>sheet.values\<close> yields. A
  workbook is the list of its sheets with their titles, in the order of
  \<^verbatim>\<open>workbook.sheetnames\<close>; titles are unique in a workbook, so \<^verbatim>\<open>workbook[sheet_name]\<close>
  is the sheet listed with the title.
\<close>

record worksheet =
  sheet_state :: pystr
  sheet_values :: "cell list list"

type_synonym workbook = "(pystr \<times> worksheet) list"

text \<open>
  What the program asks of its environment: the directory listing, the platform's
  \<^verbatim>\<open>os.path.join\<close> and \<^verbatim>\<open>os.path.basename\<close>, \<^verbatim>\<open>openpyxl.load_workbook\<close>, which returns
  the workbook stored at a path or raises, and the installed pandas: what its
  \<^verbatim>\<open>str.contains\<close> gives for a missing label of an Index with the given labels.
\<close>

record os_env =
  listdir :: "pystr \<Rightarrow> exn + pystr list"
  path_join :: "pystr \<Rightarrow> pystr \<Rightarrow> pystr"
  path_basename :: "pystr \<Rightarrow> pystr"
  load_workbook :: "pystr \<Rightarrow> exn + workbook"
  str_contains_na :: "cell list \<Rightarrow> bool option"

section \<open>process_file\<close>

text \<open>
  The body of the loop over the sheets (lines 29 to 75) ends in one of three ways: it
  goes on to the next sheet without a table, it appends a table to \<^verbatim>\<open>all_data\<close>, or an
  exception leaves the loop.
\<close>

datatype step = Continue | Append dataframe | Raise exn

text \<open>Line 61: \<^verbatim>\<open>df.loc[:, df.columns.str.contains('^Unnamed') == False]\<close>.\<close>

definition filter_unnamed :: "os_env \<Rightarrow> dataframe \<Rightarrow> dataframe" where
  "filter_unnamed env df =
     loc_columns df
       (map (\<lambda>c. str_contains_Unnamed (str_contains_na env (columns df)) c = Some False)
            (columns df))"

text \<open>Line 67: \<^verbatim>\<open>df.columns = df.columns.str.strip()\<close>.\<close>

definition strip_columns :: "dataframe \<Rightarrow> dataframe" where
  "strip_columns df = df\<lparr>columns := map strip_label (columns df)\<rparr>"

text \<open>Lines 72 and 73: the two tracking columns.\<close>

definition add_tracking :: "os_env \<Rightarrow> pystr \<Rightarrow> pystr \<Rightarrow> dataframe \<Rightarrow> dataframe" where
  "add_tracking env file_path sheet_name df =
     setitem (setitem df (PyStr (py ''File Name'')) (path_basename env file_path))
             (PyStr (py ''Sheet Name'')) sheet_name"

definition process_sheet :: "os_env \<Rightarrow> pystr \<Rightarrow> pystr \<Rightarrow> worksheet \<Rightarrow> log \<times> step" where
  "process_sheet env file_path sheet_name sheet =
     (if sheet_name = py ''Hoja1'' \<or> sheet_state sheet = py ''hidden''
      then ([(INFO, Skipping_sheet sheet_name)], Continue)
      else
        let lg = [(INFO, Processing_sheet sheet_name)];
            data = sheet_values sheet
        in
        if length data < 5
        then (lg @ [(WARNING, Less_than_5_rows sheet_name file_path)], Continue)
        else
          let headers = take 11 (data ! 4);
              rs = map (take 11) (drop 5 data)
          in
          if rs = []
          then (lg @ [(WARNING, No_valid_rows sheet_name file_path)], Continue)
          else
            let rs = map (map str_or_empty) rs in
            case DataFrame rs headers of
              Inl e \<Rightarrow> (lg, Raise e)
            | Inr df \<Rightarrow>
                if \<not> str_accessor_ok (columns df)
                then (lg @ [(ERROR, Error_filtering AttributeError)], Continue)
                else
                  let df = filter_unnamed env df in
                  if \<not> str_accessor_ok (columns df) then (lg, Raise AttributeError)
                  else
                    let df = strip_columns df;
                        lg = lg @ [(INFO, Columns_in_sheet sheet_name (columns df))];
                        df = add_tracking env file_path sheet_name df
                    in (lg, Append df))"

text \<open>The loop of lines 28 to 75, with \<^verbatim>\<open>all_data\<close> as accumulator.\<close>

fun sheets_loop ::
  "os_env \<Rightarrow> pystr \<Rightarrow> workbook \<Rightarrow> dataframe list \<Rightarrow> log \<times> (exn + dataframe list)" where
  "sheets_loop env file_path [] all_data = ([], Inr all_data)"
| "sheets_loop env file_path ((sheet_name, sheet) # rest) all_data =
     (case process_sheet env file_path sheet_name sheet of
        (lg, st) \<Rightarrow>
          (case st of
             Continue \<Rightarrow>
               (case sheets_loop env file_path rest all_data of (lg', r) \<Rightarrow> (lg @ lg', r))
           | Append df \<Rightarrow>
               (case sheets_loop env file_path rest (all_data @ [df]) of (lg', r) \<Rightarrow> (lg @ lg', r))
           | Raise e \<Rightarrow> (lg, Inl e)))"

text \<open>The \<^verbatim>\<open>try\<close> block of lines 23 to 82: it returns a table or \<^verbatim>\<open>None\<close>, or raises.\<close>

definition process_file_body :: "os_env \<Rightarrow> pystr \<Rightarrow> log \<times> (exn + dataframe option)" where
  "process_file_body env file_path =
     (case load_workbook env file_path of
        Inl e \<Rightarrow> ([], Inl e)
      | Inr workbook \<Rightarrow>
          (case sheets_loop env file_path workbook [] of
             (lg, Inl e) \<Rightarrow> (lg, Inl e)
           | (lg, Inr all_data) \<Rightarrow>
               if all_data = [] then (lg @ [(WARNING, No_valid_data file_path)], Inr None)
               else (case pd_concat all_data of
                       Inl e \<Rightarrow> (lg, Inl e)
                     | Inr df \<Rightarrow> (lg, Inr (Some df)))))"

text \<open>The whole function: the handler of lines 84 to 86 turns an exception into \<^verbatim>\<open>None\<close>.\<close>

definition process_file :: "os_env \<Rightarrow> pystr \<Rightarrow> log \<times> dataframe option" where
  "process_file env file_path =
     (case process_file_body env file_path of
        (lg, Inl e) \<Rightarrow>
          ((INFO, Processing_file file_path) # lg @ [(ERROR, Error_processing_file file_path e)],
           None)
      | (lg, Inr r) \<Rightarrow> ((INFO, Processing_file file_path) # lg, r))"

section \<open>process_year_folder\<close>

text \<open>The loop of lines 98 to 104, with \<^verbatim>\<open>merged_data\<close> as accumulator.\<close>

fun files_loop ::
  "os_env \<Rightarrow> pystr \<Rightarrow> nat \<Rightarrow> nat \<Rightarrow> pystr list \<Rightarrow> dataframe list \<Rightarrow> log \<times> dataframe list" where
  "files_loop env input_folder n i [] merged_data = ([], merged_data)"
| "files_loop env input_folder n i (file_name # rest) merged_data =
     (let file_path = path_join env input_folder file_name in
      case process_file env file_path of
        (lg, r) \<Rightarrow>
          (case files_loop env input_folder n (i + 1) rest
                  (case r of None \<Rightarrow> merged_data | Some df \<Rightarrow> merged_data @ [df]) of
             (lg', m) \<Rightarrow> ((INFO, Processing_file_of (i + 1) n file_name) # lg @ lg', m)))"

text \<open>Lines 116 to 119; the second letter of the third label is an e with acute accent, code point 233.\<close>

definition annotation_labels :: "cell list" where
  "annotation_labels =
     [PyStr (py ''Ingeniero de Calidad''), PyStr (py ''Status''),
      PyStr (py ''M'' @ [233] @ py ''todo 7M''), PyStr (py ''Fecha'')]"

definition add_annotations :: "dataframe \<Rightarrow> dataframe" where
  "add_annotations df = fold (\<lambda>key d. setitem d key []) annotation_labels df"

text \<open>
  \<^verbatim>\<open>to_excel(writer, index=False, startrow=5)\<close> writes no index column; it leaves
  \<open>startrow\<close> rows of the sheet empty, writes the labels in the next row and the rows of
  the table below it. Failures of the writer itself are not modelled.
\<close>

datatype xcell = Header cell | Data dcell

definition to_excel :: "dataframe \<Rightarrow> nat \<Rightarrow> xcell list list" where
  "to_excel df startrow =
     replicate startrow [] @ [map Header (columns df)] @ map (map Data) (rows df)"

text \<open>
  The function returns without writing, writes a sheet to the output path, or is left
  by an exception that nothing catches.
\<close>

datatype outcome = Returned | Wrote pystr "xcell list list" | Uncaught exn

definition xlsx_files :: "pystr list \<Rightarrow> pystr list" where
  "xlsx_files names = filter (suffix (py ''.xlsx'')) names"

definition process_year_folder :: "os_env \<Rightarrow> pystr \<Rightarrow> pystr \<Rightarrow> log \<times> outcome" where
  "process_year_folder env input_folder output_file_path =
     (case listdir env input_folder of
        Inl e \<Rightarrow> ([], Uncaught e)
      | Inr names \<Rightarrow>
          let files = xlsx_files names in
          (case files_loop env input_folder (length files) 0 files [] of
             (lg, merged_data) \<Rightarrow>
               if merged_data = []
               then (lg @ [(ERROR, No_valid_data_folder input_folder)], Returned)
               else
                 (case pd_concat merged_data of
                    Inl e \<Rightarrow> (lg, Uncaught e)
                  | Inr merged_df \<Rightarrow>
                      (lg @ [(INFO, Final_merged_columns (columns merged_df)),
                             (INFO, Saved_merged_data output_file_path)],
                       Wrote output_file_path (to_excel (add_annotations merged_df) 5)))))"

section \<open>Notions used to state the properties\<close>





section \<open>Example inputs\<close>

text \<open>
  An environment with POSIX paths and a pandas before 3.0, whose only folder holds the
  listed files; each file comes with what \<^verbatim>\<open>load_workbook\<close> does on it.
\<close>

definition posix_basename :: "pystr \<Rightarrow> pystr" where
  "posix_basename p = rev (takeWhile (\<lambda>c. c \<noteq> 47) (rev p))"

definition folder_env :: "(pystr \<times> (exn + workbook)) list \<Rightarrow> os_env" where
  "folder_env files =
     \<lparr>listdir = (\<lambda>d. Inr (map fst files)),
      path_join = (\<lambda>d f. d @ py ''/'' @ f),
      path_basename = posix_basename,
      load_workbook = (\<lambda>p. case map_of files (posix_basename p) of
                               Some r \<Rightarrow> r
                             | None \<Rightarrow> Inl (EnvError (py ''No such file''))),
      str_contains_na = before_pandas_3\<rparr>"

definition blank12 :: "cell list" where
  "blank12 = [PyNone, PyNone, PyNone, PyNone, PyNone, PyNone,
              PyNone, PyNone, PyNone, PyNone, PyNone, PyNone]"

text \<open>
  A visible sheet of twelve columns (A to L) with one data row. Its header row has a
  text starting with \<^verbatim>\<open>Unnamed\<close>, a number, a text with surrounding blanks, an empty
  cell, the labels \<^verbatim>\<open>File Name\<close> and \<^verbatim>\<open>Status\<close>, and a header in column L.
\<close>

definition turno1 :: worksheet where
  "turno1 =
     \<lparr>sheet_state = py ''visible'',
      sheet_values =
        [blank12, blank12, blank12, blank12,
         [PyStr (py ''Unnamed: 0''), PyVal KNumber (py ''2023''), PyStr (py '' Linea ''), PyNone,
          PyStr (py ''File Name''), PyNone, PyNone, PyNone, PyNone, PyNone,
          PyStr (py ''Status''), PyStr (py ''Extra'')],
         [PyStr (py ''u''), PyVal KNumber (py ''7''), PyStr (py ''L1''), PyNone,
          PyStr (py ''old''), PyNone, PyNone, PyNone, PyNone, PyNone,
          PyStr (py ''open''), PyStr (py ''beyond K'')]]\<rparr>"

text \<open>A sheet with headers \<^verbatim>\<open>ID\<close> and \<^verbatim>\<open>Name\<close> and two data rows, of a given state.\<close>

definition id_name_sheet :: "pystr \<Rightarrow> worksheet" where
  "id_name_sheet state =
     \<lparr>sheet_state = state,
      sheet_values =
        [[PyNone, PyNone], [PyNone, PyNone], [PyNone, PyNone], [PyNone, PyNone],
         [PyStr (py ''ID''), PyStr (py ''Name'')],
         [PyVal KNumber (py ''1''), PyStr (py ''Ana'')],
         [PyVal KNumber (py ''2''), PyNone]]\<rparr>"

text \<open>A sheet whose headers are all numbers, so that the \<^verbatim>\<open>.str\<close> accessor is refused.\<close>

definition years_sheet :: worksheet where
  "years_sheet =
     \<lparr>sheet_state = py ''visible'',
      sheet_values =
        [[PyNone, PyNone], [PyNone, PyNone], [PyNone, PyNone], [PyNone, PyNone],
         [PyVal KNumber (py ''2021''), PyVal KNumber (py ''2022'')],
         [PyStr (py ''a''), PyStr (py ''b'')]]\<rparr>"

text \<open>
  The two files of an end-to-end run: the first has one eligible sheet, the second only
  a hidden sheet and the reserved sheet. A third file cannot be opened.
\<close>

definition file1 :: workbook where
  "file1 = [(py ''Turno1'', id_name_sheet (py ''visible''))]"

definition file2 :: workbook where
  "file2 = [(py ''Oculta'', id_name_sheet (py ''hidden'')),
            (py ''Hoja1'', id_name_sheet (py ''visible''))]"

definition corrupt :: "exn + workbook" where
  "corrupt = Inl (EnvError (py ''File is not a zip file''))"



text \<open>
  Folders: the end-to-end run with a file that cannot be opened and a file that is not
  a workbook by its name; a folder in which no workbook yields a table; a folder whose
  only sheet has a \<^verbatim>\<open>Status\<close> column. With them, what the program is expected to write.
\<close>

definition end_to_end_env :: os_env where
  "end_to_end_env =
     folder_env [(py ''File1.xlsx'', Inr file1), (py ''File2.xlsx'', Inr file2),
                 (py ''bad.xlsx'', corrupt), (py ''notes.txt'', Inr file1)]"

definition end_to_end_sheet :: "xcell list list" where
  "end_to_end_sheet =
     [[], [], [], [], [],
      [Header (PyStr (py ''ID'')), Header (PyStr (py ''Name'')),
       Header (PyStr (py ''File Name'')), Header (PyStr (py ''Sheet Name'')),
       Header (PyStr (py ''Ingeniero de Calidad'')), Header (PyStr (py ''Status'')),
       Header (PyStr (py ''M'' @ [233] @ py ''todo 7M'')), Header (PyStr (py ''Fecha''))],
      [Data (S (py ''1'')), Data (S (py ''Ana'')), Data (S (py ''File1.xlsx'')),
       Data (S (py ''Turno1'')), Data (S []), Data (S []), Data (S []), Data (S [])],
      [Data (S (py ''2'')), Data (S []), Data (S (py ''File1.xlsx'')),
       Data (S (py ''Turno1'')), Data (S []), Data (S []), Data (S []), Data (S [])]]"

definition empty_batch_env :: os_env where
  "empty_batch_env =
     folder_env [(py ''bad.xlsx'', corrupt), (py ''File2.xlsx'', Inr file2),
                 (py ''notes.txt'', Inr file1)]"

definition status_env :: os_env where
  "status_env = folder_env [(py ''a.xlsx'', Inr [(py ''Turno1'', turno1)])]"

definition status_header :: "xcell list" where
  "status_header =
     [Header (PyStr (py ''Linea'')), Header (PyStr (py ''File Name'')),
      Header (PyStr (py ''Status'')), Header (PyStr (py ''Sheet Name'')),
      Header (PyStr (py ''Ingeniero de Calidad'')),
      Header (PyStr (py ''M'' @ [233] @ py ''todo 7M'')), Header (PyStr (py ''Fecha''))]"

definition file1_table :: dataframe where
  "file1_table =
     \<lparr>columns = [PyStr (py ''ID''), PyStr (py ''Name''), PyStr (py ''File Name''),
                 PyStr (py ''Sheet Name'')],
      rows = [[S (py ''1''), S (py ''Ana''), S (py ''File1.xlsx''), S (py ''Turno1'')],
              [S (py ''2''), S [], S (py ''File1.xlsx''), S (py ''Turno1'')]]\<rparr>"

text \<open>
  An environment with a pandas from 3.0 on, and a sheet whose first header cell is empty
  while the other is a text, with the table that \<open>process_sheet\<close> yields for it there.
\<close>

definition pandas_3_env :: os_env where
  "pandas_3_env = (folder_env [])\<lparr>str_contains_na := from_pandas_3\<rparr>"

definition blank_header_sheet :: worksheet where
  "blank_header_sheet =
     \<lparr>sheet_state = py ''visible'',
      sheet_values =
        [[PyNone, PyNone], [PyNone, PyNone], [PyNone, PyNone], [PyNone, PyNone],
         [PyNone, PyStr (py ''A'')],
         [PyStr (py ''x''), PyStr (py ''y'')]]\<rparr>"

definition blank_header_table :: dataframe where
  "blank_header_table =
     \<lparr>columns = [PyVal KNumber (py ''nan''), PyStr (py ''A''), PyStr (py ''File Name''),
                 PyStr (py ''Sheet Name'')],
      rows = [[S (py ''x''), S (py ''y''), S (py ''a.xlsx''), S (py ''Turno1'')]]\<rparr>"

text \<open>
  A folder of two workbooks, the first with a sheet in which the same header stands
  twice, and the table of that sheet.
\<close>

definition repeated_header_sheet :: worksheet where
  "repeated_header_sheet =
     \<lparr>sheet_state = py ''visible'',
      sheet_values =
        [[PyNone, PyNone], [PyNone, PyNone], [PyNone, PyNone], [PyNone, PyNone],
         [PyStr (py ''x''), PyStr (py ''x'')],
         [PyStr (py ''1''), PyStr (py ''2'')]]\<rparr>"

definition repeated_env :: os_env where
  "repeated_env =
     folder_env [(py ''A.xlsx'', Inr [(py ''Turno1'', repeated_header_sheet)]),
                 (py ''File1.xlsx'', Inr file1)]"

definition repeated_table :: dataframe where
  "repeated_table =
     \<lparr>columns = [PyStr (py ''x''), PyStr (py ''x''), PyStr (py ''File Name''),
                 PyStr (py ''Sheet Name'')],
      rows = [[S (py ''1''), S (py ''2''), S (py ''A.xlsx''), S (py ''Turno1'')]]\<rparr>"

section \<open>Facts about the table operations\<close>

lemma fold_max_ge: "x \<in> set xs \<Longrightarrow> x \<le> fold max xs (a::nat)"
proof -
  assume "x \<in> set xs"
  then have "x \<le> Max (set (a # xs))" by simp
  also have "Max (set (a # xs)) = fold max xs a" by (rule Max.set_eq_fold)
  finally show ?thesis .
qed

lemma select_nths:
  "length xs = length hs \<Longrightarrow> select (map f hs) xs = nths xs {i. i < length hs \<and> f (hs ! i)}"
proof (induction hs arbitrary: xs)
  case Nil
  then show ?case by (simp add: select_def)
next
  case (Cons h hs)
  then obtain x xs' where xs: "xs = x # xs'" and len: "length xs' = length hs"
    by (cases xs) auto
  have "{j. Suc j < Suc (length hs) \<and> f ((h # hs) ! Suc j)} = {j. j < length hs \<and> f (hs ! j)}"
    by auto
  with Cons.IH [OF len] show ?case
    by (simp add: xs select_def nths_Cons)
qed

lemma length_select:
  "length xs = length ys \<Longrightarrow> length (select keep xs) = length (select keep ys)"
proof (induction keep arbitrary: xs ys)
  case Nil
  then show ?case by (simp add: select_def)
next
  case (Cons k keep)
  then show ?case
    by (cases xs; cases ys) (auto simp: select_def)
qed

lemma DataFrame_columns: "DataFrame rs hs = Inr df \<Longrightarrow> columns df = hs"
  by (auto simp: DataFrame_def Let_def split: if_splits)

lemma DataFrame_rows:
  "DataFrame rs hs = Inr df \<Longrightarrow>
   rows df = map (\<lambda>r. map S r @ replicate (length hs - length r) NaN) rs"
  by (auto simp: DataFrame_def Let_def split: if_splits)

lemma DataFrame_well_shaped:
  assumes "DataFrame rs hs = Inr df"
  shows "well_shaped df"
proof -
  have "length r \<le> length hs" if "r \<in> set rs" for r
  proof -
    from that have "rs \<noteq> []" by auto
    with assms have "length hs = fold max (map length rs) 0"
      by (auto simp: DataFrame_def Let_def split: if_splits)
    moreover from that have "length r \<le> fold max (map length rs) 0"
      by (intro fold_max_ge) simp
    ultimately show ?thesis by simp
  qed
  then show ?thesis
    using assms by (auto simp: well_shaped_def DataFrame_rows DataFrame_columns)
qed

lemma well_shaped_loc_columns: "well_shaped df \<Longrightarrow> well_shaped (loc_columns df keep)"
  by (auto simp: well_shaped_def loc_columns_def intro: length_select)

lemma well_shaped_filter_unnamed: "well_shaped df \<Longrightarrow> well_shaped (filter_unnamed env df)"
  by (simp add: filter_unnamed_def well_shaped_loc_columns)

lemma well_shaped_strip_columns: "well_shaped df \<Longrightarrow> well_shaped (strip_columns df)"
  by (simp add: well_shaped_def strip_columns_def)

lemma columns_setitem:
  "columns (setitem df key v) =
     (if key \<in> set (columns df) then columns df else columns df @ [key])"
  by (simp add: setitem_def)

lemma well_shaped_setitem: "well_shaped df \<Longrightarrow> well_shaped (setitem df key v)"
  by (auto simp: well_shaped_def setitem_def)

lemma key_in_setitem: "key \<in> set (columns (setitem df key v))"
  by (simp add: columns_setitem)







lemma process_sheet_Append:
  assumes "process_sheet env file_path sheet_name sheet = (lg, Append df)"
  shows "sheet_name \<noteq> py ''Hoja1'' \<and> sheet_state sheet \<noteq> py ''hidden'' \<and>
         5 < length (sheet_values sheet) \<and>
         (\<exists>df0. DataFrame (map (map str_or_empty) (map (take 11) (drop 5 (sheet_values sheet))))
                          (take 11 (sheet_values sheet ! 4)) = Inr df0 \<and>
                str_accessor_ok (columns df0) \<and>
                df = add_tracking env file_path sheet_name (strip_columns (filter_unnamed env df0)) \<and>
                lg = [(INFO, Processing_sheet sheet_name),
                      (INFO, Columns_in_sheet sheet_name
                               (columns (strip_columns (filter_unnamed env df0))))])"
  using assms
  by (auto simp: process_sheet_def Let_def split: if_splits sum.splits)







lemma well_shaped_add_tracking:
  "well_shaped df \<Longrightarrow> well_shaped (add_tracking env file_path sheet_name df)"
  by (simp add: add_tracking_def well_shaped_setitem)





lemma process_sheet_well_shaped:
  assumes "process_sheet env file_path sheet_name sheet = (lg, Append df)"
  shows "well_shaped df"
proof -
  from process_sheet_Append [OF assms] obtain df0 where
    "DataFrame (map (map str_or_empty) (map (take 11) (drop 5 (sheet_values sheet))))
       (take 11 (sheet_values sheet ! 4)) = Inr df0"
    and df: "df = add_tracking env file_path sheet_name (strip_columns (filter_unnamed env df0))"
    by blast
  then have "well_shaped df0" by (simp add: DataFrame_well_shaped)
  with df show ?thesis
    by (simp add: well_shaped_add_tracking well_shaped_strip_columns well_shaped_filter_unnamed)
qed












section \<open>The positions kept by the column filter\<close>








section \<open>Evaluating the examples\<close>

lemmas ex_defs = folder_env_def posix_basename_def blank12_def turno1_def id_name_sheet_def
  years_sheet_def file1_def file2_def corrupt_def py_def before_pandas_3_def
  from_pandas_3_def pandas_3_env_def blank_header_sheet_def blank_header_table_def
  repeated_header_sheet_def repeated_env_def repeated_table_def
lemmas run_defs = process_sheet_def DataFrame_def str_accessor_ok_def filter_unnamed_def
  loc_columns_def select_def strip_columns_def add_tracking_def setitem_def str_strip_def
  isspace_def process_file_body_def process_file_def pd_concat_def reindex_def
  process_year_folder_def xlsx_files_def add_annotations_def annotation_labels_def to_excel_def
  Let_def suffix_to_prefix


lemma replicate_5: "replicate 5 x = [x, x, x, x, x]"
  by (simp add: eval_nat_numeral)




section \<open>The tracking columns\<close>



section \<open>The column filter\<close>




section \<open>Rows and columns taken from the sheet\<close>




section \<open>Columns without a usable header\<close>




section \<open>Sheets that are skipped\<close>

lemma process_sheet_skips:
  assumes "sheet_name = py ''Hoja1'' \<or> sheet_state sheet = py ''hidden'' \<or>
           length (sheet_values sheet) < 5"
  shows "snd (process_sheet env file_path sheet_name sheet) = Continue"
  using assms by (auto simp: process_sheet_def Let_def)

text \<open>
  Claim C1 says that a sheet contributes rows only when it is not named \<^verbatim>\<open>Hoja1\<close>, it
  is visible and it has at least 5 rows. The program skips a sheet named \<^verbatim>\<open>Hoja1\<close>, a
  sheet whose state is \<^verbatim>\<open>'hidden'\<close> and a sheet with fewer than 5 rows
  (\<open>process_sheet_skips\<close>, \<open>process_sheet_Append\<close>), but it compares the state with
  \<^verbatim>\<open>'hidden'\<close> only. At a sheet whose state is \<^verbatim>\<open>'veryHidden'\<close>, which is not visible,
  the claim fails: both data rows of the sheet are written to the output.
\<close>

theorem veryHidden_sheet_reaches_output:
  "sheet_state (id_name_sheet (py ''veryHidden'')) \<noteq> py ''visible'' \<and>
   snd (process_year_folder
          (folder_env [(py ''File1.xlsx'', Inr [(py ''Turno1'', id_name_sheet (py ''veryHidden''))])])
          (py ''d'') (py ''out.xlsx'')) =
     Wrote (py ''out.xlsx'')
       [[], [], [], [], [],
        [Header (PyStr (py ''ID'')), Header (PyStr (py ''Name'')),
         Header (PyStr (py ''File Name'')), Header (PyStr (py ''Sheet Name'')),
         Header (PyStr (py ''Ingeniero de Calidad'')), Header (PyStr (py ''Status'')),
         Header (PyStr (py ''M'' @ [233] @ py ''todo 7M'')), Header (PyStr (py ''Fecha''))],
        [Data (S (py ''1'')), Data (S (py ''Ana'')), Data (S (py ''File1.xlsx'')),
         Data (S (py ''Turno1'')), Data (S []), Data (S []), Data (S []), Data (S [])],
        [Data (S (py ''2'')), Data (S []), Data (S (py ''File1.xlsx'')),
         Data (S (py ''Turno1'')), Data (S []), Data (S []), Data (S []), Data (S [])]]"
  by (simp add: ex_defs run_defs replicate_5)

section \<open>Tables keep their shape through the program\<close>

lemma well_shaped_pd_concat:
  assumes ws: "\<forall>d \<in> set frames. well_shaped d" and c: "pd_concat frames = Inr df"
  shows "well_shaped df"
proof (cases frames)
  case Nil
  with c show ?thesis by (simp add: pd_concat_def)
next
  case (Cons f fs)
  show ?thesis
  proof (cases "\<forall>g \<in> set fs. columns g = columns f")
    case True
    with c Cons have df: "df = \<lparr>columns = columns f, rows = List.concat (map rows frames)\<rparr>"
      by (simp add: pd_concat_def)
    from True Cons have "\<forall>g \<in> set frames. columns g = columns f" by simp
    with ws show ?thesis
      by (auto simp: df well_shaped_def)
  next
    case False
    with c Cons have
      df: "df = \<lparr>columns = first_seen [] (List.concat (map columns frames)),
                 rows = List.concat (map (reindex (first_seen [] (List.concat (map columns frames))))
                          frames)\<rparr>"
      by (auto simp: pd_concat_def Let_def split: if_splits)
    show ?thesis
      by (auto simp: df well_shaped_def reindex_def)
  qed
qed

lemma sheets_loop_well_shaped:
  assumes "\<forall>d \<in> set all_data. well_shaped d"
    and "sheets_loop env file_path workbook all_data = (lg, Inr result)"
  shows "\<forall>d \<in> set result. well_shaped d"
  using assms
proof (induction workbook arbitrary: all_data lg)
  case Nil
  then show ?case by simp
next
  case (Cons p rest)
  obtain sheet_name sheet where p: "p = (sheet_name, sheet)" by (cases p)
  obtain l st where ps: "process_sheet env file_path sheet_name sheet = (l, st)"
    by (cases "process_sheet env file_path sheet_name sheet")
  show ?case
  proof (cases st)
    case Continue
    with Cons.prems(2) p ps obtain l' where
      "sheets_loop env file_path rest all_data = (l', Inr result)"
      by (auto split: prod.splits)
    with Cons.IH Cons.prems(1) show ?thesis by blast
  next
    case (Append df)
    with Cons.prems(2) p ps obtain l' where
      rec: "sheets_loop env file_path rest (all_data @ [df]) = (l', Inr result)"
      by (auto split: prod.splits)
    from ps Append have "well_shaped df" by (simp add: process_sheet_well_shaped)
    with Cons.prems(1) have "\<forall>d \<in> set (all_data @ [df]). well_shaped d" by simp
    with Cons.IH rec show ?thesis by blast
  next
    case (Raise e)
    with Cons.prems(2) p ps show ?thesis by simp
  qed
qed

lemma process_file_Some:
  assumes "process_file env file_path = (lg, Some df)"
  shows "\<exists>workbook l all_data.
           load_workbook env file_path = Inr workbook \<and>
           sheets_loop env file_path workbook [] = (l, Inr all_data) \<and>
           all_data \<noteq> [] \<and> pd_concat all_data = Inr df \<and>
           lg = (INFO, Processing_file file_path) # l"
  using assms
  by (auto simp: process_file_def process_file_body_def
      split: sum.splits prod.splits if_splits)

lemma process_file_well_shaped:
  assumes "process_file env file_path = (lg, Some df)"
  shows "well_shaped df"
proof -
  from process_file_Some [OF assms] obtain workbook l all_data where
    loop: "sheets_loop env file_path workbook [] = (l, Inr all_data)"
    and c: "pd_concat all_data = Inr df"
    by blast
  from sheets_loop_well_shaped [OF _ loop] have "\<forall>d \<in> set all_data. well_shaped d" by simp
  then show ?thesis using c by (rule well_shaped_pd_concat)
qed

lemma files_loop_merged:
  "snd (files_loop env input_folder n i files merged_data) =
     merged_data @
     List.map_filter (\<lambda>f. snd (process_file env (path_join env input_folder f))) files"
proof (induction files arbitrary: i merged_data)
  case Nil
  then show ?case by (simp add: List.map_filter_simps)
next
  case (Cons f files)
  obtain l r where pf: "process_file env (path_join env input_folder f) = (l, r)"
    by (cases "process_file env (path_join env input_folder f)")
  let ?m = "case r of None \<Rightarrow> merged_data | Some df \<Rightarrow> merged_data @ [df]"
  have "snd (files_loop env input_folder n i (f # files) merged_data) =
        snd (files_loop env input_folder n (i + 1) files ?m)"
    by (simp add: pf Let_def split: prod.splits)
  also have "\<dots> = ?m @
      List.map_filter (\<lambda>f. snd (process_file env (path_join env input_folder f))) files"
    by (rule Cons.IH)
  also have "\<dots> = merged_data @
      List.map_filter (\<lambda>f. snd (process_file env (path_join env input_folder f))) (f # files)"
    by (cases r) (simp_all add: pf List.map_filter_simps)
  finally show ?case .
qed

lemma files_loop_well_shaped:
  assumes "d \<in> set (snd (files_loop env input_folder n i files []))"
  shows "well_shaped d"
proof -
  from assms obtain f where
    "snd (process_file env (path_join env input_folder f)) = Some d"
    by (auto simp: files_loop_merged List.map_filter_def)
  then show ?thesis
    by (cases "process_file env (path_join env input_folder f)")
       (auto dest: process_file_well_shaped)
qed

lemma process_year_folder_Wrote:
  assumes "process_year_folder env input_folder output_file_path = (lg, Wrote p sheet)"
  shows "\<exists>names merged_df.
           listdir env input_folder = Inr names \<and>
           snd (files_loop env input_folder (length (xlsx_files names)) 0 (xlsx_files names) [])
             \<noteq> [] \<and>
           pd_concat
             (snd (files_loop env input_folder (length (xlsx_files names)) 0 (xlsx_files names) []))
             = Inr merged_df \<and>
           well_shaped merged_df \<and>
           p = output_file_path \<and> sheet = to_excel (add_annotations merged_df) 5"
proof -
  from assms obtain names where ls: "listdir env input_folder = Inr names"
    by (auto simp: process_year_folder_def split: sum.splits)
  let ?loop = "files_loop env input_folder (length (xlsx_files names)) 0 (xlsx_files names) []"
  obtain l m where loop: "?loop = (l, m)" by (cases ?loop)
  from assms ls loop have ne: "m \<noteq> []"
    by (auto simp: process_year_folder_def Let_def split: if_splits)
  with assms ls loop obtain merged_df where c: "pd_concat m = Inr merged_df"
    and r: "p = output_file_path" "sheet = to_excel (add_annotations merged_df) 5"
    by (auto simp: process_year_folder_def Let_def split: sum.splits)
  have "\<forall>d \<in> set m. well_shaped d"
    using files_loop_well_shaped [of _ env input_folder "length (xlsx_files names)" 0
        "xlsx_files names"] loop by simp
  then have "well_shaped merged_df" using c by (rule well_shaped_pd_concat)
  with ls loop ne c r show ?thesis by auto
qed

lemma fold_setitem_well_shaped:
  "well_shaped df \<Longrightarrow> well_shaped (fold (\<lambda>key d. setitem d key v) ks df)"
  by (induction ks arbitrary: df) (simp_all add: well_shaped_setitem)





lemmas out_defs = end_to_end_env_def end_to_end_sheet_def empty_batch_env_def status_env_def
  status_header_def file1_table_def

lemma end_to_end_run:
  "snd (process_year_folder end_to_end_env (py ''d'') (py ''out.xlsx'')) =
     Wrote (py ''out.xlsx'') end_to_end_sheet"
  by (simp add: out_defs ex_defs run_defs replicate_5)

lemma end_to_end_run':
  "process_year_folder end_to_end_env (py ''d'') (py ''out.xlsx'') =
     (fst (process_year_folder end_to_end_env (py ''d'') (py ''out.xlsx'')),
      Wrote (py ''out.xlsx'') end_to_end_sheet)"
  by (simp add: prod_eq_iff end_to_end_run)

lemma empty_batch_files:
  "listdir empty_batch_env (py ''d'') =
     Inr [py ''bad.xlsx'', py ''File2.xlsx'', py ''notes.txt'']"
  "xlsx_files [py ''bad.xlsx'', py ''File2.xlsx'', py ''notes.txt''] =
     [py ''bad.xlsx'', py ''File2.xlsx'']"
  "snd (process_file empty_batch_env (path_join empty_batch_env (py ''d'') (py ''bad.xlsx''))) = None"
  "snd (process_file empty_batch_env (path_join empty_batch_env (py ''d'') (py ''File2.xlsx''))) = None"
  by (simp_all add: out_defs ex_defs run_defs)



section \<open>The annotation columns\<close>




section \<open>A batch without usable data\<close>

text \<open>
  Claim C5. When the folder can be listed and \<open>process_file\<close> returns \<^verbatim>\<open>None\<close> for every
  file of the folder whose name ends in \<^verbatim>\<open>.xlsx\<close>, \<open>process_year_folder\<close> returns without
  writing, and the last entry of its log is the error \<open>No_valid_data_folder\<close>. Whenever
  it writes, it writes to the output path, and some such file gave a table.
\<close>

theorem no_output_without_usable_file:
  "(listdir env input_folder = Inr names \<and>
    (\<forall>f \<in> set (xlsx_files names).
        snd (process_file env (path_join env input_folder f)) = None) \<longrightarrow>
      snd (process_year_folder env input_folder output_file_path) = Returned \<and>
      last (fst (process_year_folder env input_folder output_file_path)) =
        (ERROR, No_valid_data_folder input_folder)) \<and>
   (process_year_folder env input_folder output_file_path = (lg, Wrote p sheet) \<longrightarrow>
      p = output_file_path \<and>
      (\<exists>names f. listdir env input_folder = Inr names \<and> f \<in> set (xlsx_files names) \<and>
         snd (process_file env (path_join env input_folder f)) \<noteq> None))"
proof (intro conjI impI)
  assume h: "listdir env input_folder = Inr names \<and>
    (\<forall>f \<in> set (xlsx_files names).
        snd (process_file env (path_join env input_folder f)) = None)"
  let ?loop = "files_loop env input_folder (length (xlsx_files names)) 0 (xlsx_files names) []"
  from h have "List.map_filter (\<lambda>f. snd (process_file env (path_join env input_folder f)))
                 (xlsx_files names) = []"
    by (auto simp: List.map_filter_def filter_empty_conv)
  then have "snd ?loop = []" by (simp add: files_loop_merged)
  then obtain l where "?loop = (l, [])" by (cases ?loop) auto
  with h show "snd (process_year_folder env input_folder output_file_path) = Returned"
    and "last (fst (process_year_folder env input_folder output_file_path)) =
        (ERROR, No_valid_data_folder input_folder)"
    by (simp_all add: process_year_folder_def Let_def)
next
  assume w: "process_year_folder env input_folder output_file_path = (lg, Wrote p sheet)"
  from process_year_folder_Wrote [OF w] obtain ns where
    ls: "listdir env input_folder = Inr ns"
    and ne: "snd (files_loop env input_folder (length (xlsx_files ns)) 0 (xlsx_files ns) []) \<noteq> []"
    and p: "p = output_file_path"
    by blast
  from p show "p = output_file_path" .
  from ne obtain f where "f \<in> set (xlsx_files ns)"
    "snd (process_file env (path_join env input_folder f)) \<noteq> None"
    by (auto simp: files_loop_merged List.map_filter_def filter_empty_conv)
  with ls show "\<exists>names f. listdir env input_folder = Inr names \<and> f \<in> set (xlsx_files names) \<and>
         snd (process_file env (path_join env input_folder f)) \<noteq> None"
    by blast
qed

theorem no_output_witness:
  "snd (process_year_folder empty_batch_env (py ''d'') (py ''out.xlsx'')) = Returned \<and>
   last (fst (process_year_folder empty_batch_env (py ''d'') (py ''out.xlsx''))) =
     (ERROR, No_valid_data_folder (py ''d'')) \<and>
   snd (process_year_folder end_to_end_env (py ''d'') (py ''out.xlsx'')) =
     Wrote (py ''out.xlsx'') end_to_end_sheet \<and>
   (\<exists>names f. listdir end_to_end_env (py ''d'') = Inr names \<and> f \<in> set (xlsx_files names) \<and>
      snd (process_file end_to_end_env (path_join end_to_end_env (py ''d'') f)) \<noteq> None)"
proof -
  have h: "listdir empty_batch_env (py ''d'') =
             Inr [py ''bad.xlsx'', py ''File2.xlsx'', py ''notes.txt''] \<and>
           (\<forall>f \<in> set (xlsx_files [py ''bad.xlsx'', py ''File2.xlsx'', py ''notes.txt'']).
              snd (process_file empty_batch_env (path_join empty_batch_env (py ''d'') f)) = None)"
    by (simp add: empty_batch_files)
  from no_output_without_usable_file [of empty_batch_env "py ''d''" _ "py ''out.xlsx''"] h
  have a: "snd (process_year_folder empty_batch_env (py ''d'') (py ''out.xlsx'')) = Returned \<and>
   last (fst (process_year_folder empty_batch_env (py ''d'') (py ''out.xlsx''))) =
     (ERROR, No_valid_data_folder (py ''d''))"
    by blast
  from no_output_without_usable_file [of end_to_end_env "py ''d''" _ "py ''out.xlsx''"]
    end_to_end_run'
  have b: "\<exists>names f. listdir end_to_end_env (py ''d'') = Inr names \<and> f \<in> set (xlsx_files names) \<and>
      snd (process_file end_to_end_env (path_join end_to_end_env (py ''d'') f)) \<noteq> None"
    by blast
  from a b end_to_end_run show ?thesis by (intro conjI) simp_all
qed

section \<open>A workbook that fails\<close>

text \<open>
  What holds of the handler of \<open>process_file\<close>: when its \<^verbatim>\<open>try\<close> block raises an exception
  (which it does in particular when \<^verbatim>\<open>load_workbook\<close> raises), \<open>process_file\<close> returns
  \<^verbatim>\<open>None\<close> and the last entry of its log is the error with the path and the exception;
  the loop over the files collects the tables of the files that gave one, in order.
\<close>

lemma process_file_handler:
  "(snd (process_file_body env file_path) = Inl e \<longrightarrow>
      snd (process_file env file_path) = None \<and>
      last (fst (process_file env file_path)) = (ERROR, Error_processing_file file_path e)) \<and>
   (load_workbook env file_path = Inl e \<longrightarrow> snd (process_file_body env file_path) = Inl e) \<and>
   snd (files_loop env input_folder n i files merged_data) =
     merged_data @
     List.map_filter (\<lambda>f. snd (process_file env (path_join env input_folder f))) files \<and>
   (snd (process_file env (path_join env input_folder bad)) = None \<longrightarrow>
      snd (files_loop env input_folder n i (before @ bad # after) merged_data) =
      snd (files_loop env input_folder n i (before @ after) merged_data))"
proof (intro conjI impI)
  assume h: "snd (process_file_body env file_path) = Inl e"
  then obtain l where "process_file_body env file_path = (l, Inl e)"
    by (cases "process_file_body env file_path") auto
  then show "snd (process_file env file_path) = None"
    and "last (fst (process_file env file_path)) = (ERROR, Error_processing_file file_path e)"
    by (simp_all add: process_file_def)
next
  assume "load_workbook env file_path = Inl e"
  then show "snd (process_file_body env file_path) = Inl e"
    by (simp add: process_file_body_def)
next
  show "snd (files_loop env input_folder n i files merged_data) =
     merged_data @
     List.map_filter (\<lambda>f. snd (process_file env (path_join env input_folder f))) files"
    by (rule files_loop_merged)
next
  assume "snd (process_file env (path_join env input_folder bad)) = None"
  then show "snd (files_loop env input_folder n i (before @ bad # after) merged_data) =
      snd (files_loop env input_folder n i (before @ after) merged_data)"
    by (simp add: files_loop_merged List.map_filter_def)
qed

lemma repeated_files:
  "snd (process_file repeated_env (py ''d/A.xlsx'')) = Some repeated_table"
  "snd (process_file repeated_env (py ''d/File1.xlsx'')) = Some file1_table"
  by (simp_all add: ex_defs run_defs file1_table_def)

text \<open>
  Claim C6 says that every exception raised on account of a workbook is caught inside
  \<open>process_file\<close> and turned into \<^verbatim>\<open>None\<close>, so that a single bad workbook never aborts the
  batch. The \<^verbatim>\<open>pd.concat(merged_data)\<close> of line 111 of \<open>process_year_folder\<close> stands outside
  every \<^verbatim>\<open>try\<close>. In a folder with \<^verbatim>\<open>A.xlsx\<close>, whose sheet has the header \<^verbatim>\<open>x\<close> twice, and
  \<^verbatim>\<open>File1.xlsx\<close>, \<open>process_file\<close> returns a table for both workbooks, nothing is caught
  and nothing is turned into \<^verbatim>\<open>None\<close>; the merge of the two tables then raises
  \<^verbatim>\<open>InvalidIndexError\<close>, \<open>process_year_folder\<close> is left by this exception and nothing is
  written. Without \<^verbatim>\<open>A.xlsx\<close> the same folder is written as in the end-to-end run.
\<close>

theorem repeated_header_aborts_batch:
  "listdir repeated_env (py ''d'') = Inr [py ''A.xlsx'', py ''File1.xlsx''] \<and>
   load_workbook repeated_env (py ''d/A.xlsx'') = Inr [(py ''Turno1'', repeated_header_sheet)] \<and>
   sheet_values repeated_header_sheet ! 4 = [PyStr (py ''x''), PyStr (py ''x'')] \<and>
   snd (process_file repeated_env (py ''d/A.xlsx'')) = Some repeated_table \<and>
   snd (process_file repeated_env (py ''d/File1.xlsx'')) = Some file1_table \<and>
   snd (process_year_folder repeated_env (py ''d'') (py ''out.xlsx'')) =
     Uncaught InvalidIndexError \<and>
   snd (process_year_folder (folder_env [(py ''File1.xlsx'', Inr file1)]) (py ''d'')
          (py ''out.xlsx'')) =
     Wrote (py ''out.xlsx'') end_to_end_sheet"
  by (simp add: ex_defs run_defs repeated_files) (simp add: ex_defs run_defs out_defs replicate_5)

section \<open>The layout of the written sheet\<close>

text \<open>
  Claim C7. Whenever \<open>process_year_folder\<close> writes, it writes to the output path a sheet
  whose rows 0 to 4 are empty, whose row 5 holds the labels of the merged table with
  its annotation columns, and whose rows from 6 on are the rows of that table.
\<close>

theorem header_row_written_at_row_5:
  assumes "process_year_folder env input_folder output_file_path = (lg, Wrote p sheet)"
  shows "p = output_file_path \<and> take 5 sheet = [[], [], [], [], []] \<and> 5 < length sheet \<and>
         (\<exists>names merged_df.
            listdir env input_folder = Inr names \<and>
            pd_concat
              (snd (files_loop env input_folder (length (xlsx_files names)) 0 (xlsx_files names) []))
              = Inr merged_df \<and>
            sheet ! 5 = map Header (columns (add_annotations merged_df)) \<and>
            drop 6 sheet = map (map Data) (rows (add_annotations merged_df)))"
proof -
  from process_year_folder_Wrote [OF assms] obtain names merged_df where
    ls: "listdir env input_folder = Inr names"
    and c: "pd_concat
             (snd (files_loop env input_folder (length (xlsx_files names)) 0 (xlsx_files names) []))
             = Inr merged_df"
    and p: "p = output_file_path"
    and sh: "sheet = to_excel (add_annotations merged_df) 5"
    by blast
  let ?df = "add_annotations merged_df"
  have sheet: "sheet = [[], [], [], [], [], map Header (columns ?df)] @ map (map Data) (rows ?df)"
    by (simp add: sh to_excel_def replicate_5)
  have "take 5 sheet = [[], [], [], [], []]" "5 < length sheet"
    "sheet ! 5 = map Header (columns ?df)" "drop 6 sheet = map (map Data) (rows ?df)"
    by (simp_all add: sheet)
  with ls c p show ?thesis by blast
qed

theorem header_row_witness:
  "snd (process_year_folder end_to_end_env (py ''d'') (py ''out.xlsx'')) =
     Wrote (py ''out.xlsx'') end_to_end_sheet \<and>
   take 5 end_to_end_sheet = [[], [], [], [], []] \<and>
   5 < length end_to_end_sheet \<and>
   end_to_end_sheet ! 5 =
     [Header (PyStr (py ''ID'')), Header (PyStr (py ''Name'')),
      Header (PyStr (py ''File Name'')), Header (PyStr (py ''Sheet Name'')),
      Header (PyStr (py ''Ingeniero de Calidad'')), Header (PyStr (py ''Status'')),
      Header (PyStr (py ''M'' @ [233] @ py ''todo 7M'')), Header (PyStr (py ''Fecha''))]"
proof -
  from header_row_written_at_row_5 [OF end_to_end_run']
  have "take 5 end_to_end_sheet = [[], [], [], [], []]" "5 < length end_to_end_sheet"
    by blast+
  moreover have "end_to_end_sheet ! 5 =
     [Header (PyStr (py ''ID'')), Header (PyStr (py ''Name'')),
      Header (PyStr (py ''File Name'')), Header (PyStr (py ''Sheet Name'')),
      Header (PyStr (py ''Ingeniero de Calidad'')), Header (PyStr (py ''Status'')),
      Header (PyStr (py ''M'' @ [233] @ py ''todo 7M'')), Header (PyStr (py ''Fecha''))]"
    by (simp add: end_to_end_sheet_def)
  ultimately show ?thesis using end_to_end_run by (intro conjI)
qed

end
